theory Spec2Isabelle
  imports Complex_Main "HOL-Library.Word" "HOL-Library.Signed_Division"
begin

section \<open>Machine types of the target\<close>

text \<open>
  The firmware runs on a 32-bit microcontroller: \<^verbatim>\<open>int\<close>, \<^verbatim>\<open>size_t\<close> and
  \<^verbatim>\<open>uint32_t\<close> are 32 bits wide, \<^verbatim>\<open>int64_t\<close> is 64 bits wide. Arithmetic on words
  wraps around; \<open>div\<close>, \<open>mod\<close> and \<open><\<close> on words are the unsigned operations,
  \<open>sint\<close> reads a word as two's complement, and \<open>sdiv\<close> on the integers is the division
  that truncates towards zero.
\<close>

type_synonym c_int = "32 word"
type_synonym size_t = "32 word"
type_synonym uint32_t = "32 word"
type_synonym int64_t = "64 word"

text \<open>C's \<^verbatim>\<open>/\<close> on two \<^verbatim>\<open>int64_t\<close>, for a divisor that is not zero.\<close>

definition div_int64 :: "int64_t \<Rightarrow> int64_t \<Rightarrow> int64_t" where
  "div_int64 a b = word_of_int (sint a sdiv sint b)"

section \<open>Running-average rate filter\<close>

text \<open>
  Modelled from the spec: the declaration of \<^verbatim>\<open>ra_filter_t\<close> is not among the sources.
  Its fields are the five that \<^verbatim>\<open>ra_filter_init\<close> and \<^verbatim>\<open>ra_filter_run\<close> dereference,
  which are the ones of the specification's rate filter state (a circular buffer of samples,
  a running sum, a write index, a count of valid samples, and the buffer's capacity).
  \<^verbatim>\<open>size\<close> is assigned from a \<^verbatim>\<open>size_t\<close> and \<^verbatim>\<open>index\<close> and \<^verbatim>\<open>count\<close> are compared
  with it, so the three are taken as \<^verbatim>\<open>size_t\<close>; the buffer is allocated as \<^verbatim>\<open>int *\<close> and
  the running sum is returned as \<^verbatim>\<open>int\<close>, so both hold \<^verbatim>\<open>int\<close>. A null \<^verbatim>\<open>values\<close>
  pointer is \<open>None\<close>; an allocated buffer is the list of its elements.
\<close>

record ra_filter_t =
  size_f :: size_t
  index_f :: size_t
  count_f :: size_t
  sum_f :: c_int
  values_f :: "c_int list option"

text \<open>What C leaves undefined and the hardware traps on is a fault of the model.\<close>

datatype fault = OutOfBounds | DivideByZero

text \<open>\<^verbatim>\<open>static ra_filter_t ra_filter;\<close> and \<^verbatim>\<open>memset(filter, 0, sizeof(ra_filter_t))\<close>:
  every field zero, the buffer pointer null.\<close>

definition ra_filter_zero :: ra_filter_t where
  "ra_filter_zero =
     \<lparr>size_f = 0, index_f = 0, count_f = 0, sum_f = 0, values_f = None\<rparr>"

text \<open>
  \<^verbatim>\<open>ra_filter_init(filter, sample_size)\<close> (the parameter \<^verbatim>\<open>filter\<close> is \<open>flt\<close>
  here, the name being taken in HOL). The outcome of \<^verbatim>\<open>malloc\<close> is a parameter. The
  byte count \<^verbatim>\<open>sample_size * sizeof(int)\<close> is computed in \<^verbatim>\<open>size_t\<close> and wraps, so the
  buffer holds as many elements as fit into the bytes really requested. The result is the
  filter as the call leaves it, and whether the returned pointer is non-null.
\<close>

definition ra_filter_init :: "bool \<Rightarrow> ra_filter_t \<Rightarrow> size_t \<Rightarrow> bool \<times> ra_filter_t" where
  "ra_filter_init malloc_ok flt sample_size =
     (let flt = ra_filter_zero;
          bytes = sample_size * 4
      in if \<not> malloc_ok then (False, flt)
         else (True, flt\<lparr>values_f := Some (replicate (unat bytes div 4) 0),
                            size_f := sample_size\<rparr>))"

text \<open>
  \<^verbatim>\<open>ra_filter_run(filter, value)\<close>, statement by statement. The quotient
  \<^verbatim>\<open>filter->sum / filter->count\<close> has an \<^verbatim>\<open>int\<close> and a \<^verbatim>\<open>size_t\<close> operand, so C
  converts the sum to unsigned and divides unsigned; the result is returned as \<^verbatim>\<open>int\<close>.
\<close>

definition ra_filter_run :: "ra_filter_t \<Rightarrow> c_int \<Rightarrow> fault + (c_int \<times> ra_filter_t)" where
  "ra_filter_run flt v =
     (case values_f flt of
        None \<Rightarrow> Inr (v, flt)
      | Some vs \<Rightarrow>
          let i = unat (index_f flt) in
          if length vs \<le> i then Inl OutOfBounds
          else
            let sum1 = sum_f flt - vs ! i;
                vs' = vs[i := v];
                sum2 = sum1 + vs' ! i;
                index1 = index_f flt + 1
            in if size_f flt = 0 then Inl DivideByZero
               else
                 let index2 = index1 mod size_f flt;
                     count' = (if count_f flt < size_f flt
                               then count_f flt + 1 else count_f flt)
                 in if count' = 0 then Inl DivideByZero
                    else Inr (sum2 div count',
                              flt\<lparr>sum_f := sum2, values_f := Some vs',
                                     index_f := index2, count_f := count'\<rparr>))"

text \<open>Recording the samples \<open>x # ys\<close> one after the other; the result of the last call.\<close>

fun ra_filter_run_all :: "ra_filter_t \<Rightarrow> c_int \<Rightarrow> c_int list \<Rightarrow> fault + (c_int \<times> ra_filter_t)" where
  "ra_filter_run_all flt x [] = ra_filter_run flt x"
| "ra_filter_run_all flt x (y # ys) =
     (case ra_filter_run flt x of
        Inl e \<Rightarrow> Inl e
      | Inr (_, flt') \<Rightarrow> ra_filter_run_all flt' y ys)"

text \<open>The last \<open>m\<close> elements of a list of samples (all of them when there are fewer).\<close>

definition last_samples :: "nat \<Rightarrow> 'a list \<Rightarrow> 'a list" where
  "last_samples m xs = drop (length xs - m) xs"

text \<open>
  The state of a filter of capacity \<open>W\<close> that has recorded the samples \<open>hist\<close>, oldest
  first: slot \<open>k mod W\<close> holds sample \<open>k\<close> for the last \<open>W\<close> samples, slots never written
  hold zero. This is the invariant of the proofs below, not part of the program.
\<close>

definition ra_inv :: "nat \<Rightarrow> c_int list \<Rightarrow> ra_filter_t \<Rightarrow> bool" where
  "ra_inv W hist flt \<longleftrightarrow>
     0 < W \<and> unat (size_f flt) = W \<and>
     unat (index_f flt) = length hist mod W \<and>
     unat (count_f flt) = min (length hist) W \<and>
     sum_f flt = sum_list (drop (length hist - W) hist) \<and>
     (\<exists>buf. values_f flt = Some buf \<and> length buf = W \<and>
        (\<forall>k<length hist. length hist \<le> k + W \<longrightarrow> buf ! (k mod W) = hist ! k) \<and>
        (\<forall>j<W. length hist \<le> j \<longrightarrow> buf ! j = 0))"

section \<open>Driver and HTTP server interface\<close>

text \<open>
  The camera driver, the HTTP server and the C library are not part of the sources. What
  a call into them returns is an input of the model; the calls the handlers make are
  recorded as events, in the order they are made.

  \<^verbatim>\<open>pixformat_t\<close> is the driver's enumeration of pixel formats; the sources name only
  \<^verbatim>\<open>PIXFORMAT_JPEG\<close>, the compressed format. \<^verbatim>\<open>esp_err_t\<close> is an \<^verbatim>\<open>int\<close> with
  \<^verbatim>\<open>ESP_OK = 0\<close> and \<^verbatim>\<open>ESP_FAIL = -1\<close>.
\<close>

datatype pixformat_t =
    PIXFORMAT_RGB565 | PIXFORMAT_YUV422 | PIXFORMAT_GRAYSCALE | PIXFORMAT_JPEG
  | PIXFORMAT_RGB888 | PIXFORMAT_RAW | PIXFORMAT_RGB444 | PIXFORMAT_RGB555

type_synonym esp_err_t = c_int

abbreviation (input) ESP_OK :: esp_err_t where "ESP_OK \<equiv> 0"
abbreviation (input) ESP_FAIL :: esp_err_t where "ESP_FAIL \<equiv> - 1"

text \<open>The setters of \<^verbatim>\<open>sensor_t\<close> that the sources call through the sensor pointer.\<close>

datatype setter =
    set_framesize | set_quality | set_contrast | set_brightness | set_saturation
  | set_gainceiling | set_colorbar | set_whitebal | set_gain_ctrl | set_exposure_ctrl
  | set_hmirror | set_vflip | set_awb_gain | set_agc_gain | set_aec_value | set_aec2
  | set_dcw | set_bpc | set_wpc | set_raw_gma | set_lenc | set_wb_mode | set_ae_level
  | set_special_effect

text \<open>
  The sensor as the handlers see it: the current pixel format, and what the driver's
  setter returns for a value (zero when it accepts it).
\<close>

record sensor_t =
  pixformat :: pixformat_t
  setter_ret :: "setter \<Rightarrow> c_int \<Rightarrow> c_int"

section \<open>The control handler\<close>

text \<open>
  One request to \<^verbatim>\<open>/control\<close>, as the calls of \<^verbatim>\<open>cmd_handler\<close> observe it:
  the length \<^verbatim>\<open>httpd_req_get_url_query_len\<close> reports, whether \<^verbatim>\<open>malloc\<close> of the query
  buffer succeeds, the query string when \<^verbatim>\<open>httpd_req_get_url_query_str\<close> returns
  \<^verbatim>\<open>ESP_OK\<close>, the value \<^verbatim>\<open>httpd_query_key_value\<close> copies out of a query string for a key
  when it returns \<^verbatim>\<open>ESP_OK\<close> (it fails when the key is missing and when the value does not
  fit the 32-byte buffer), the number \<^verbatim>\<open>atoi\<close> reads, and the code the response call
  returns.
\<close>

record control_req =
  url_query_len :: size_t
  malloc_buf :: bool
  url_query_str :: "string option"
  query_key_value :: "string \<Rightarrow> string \<Rightarrow> string option"
  atoi :: "string \<Rightarrow> c_int"
  resp_ret :: esp_err_t

datatype ctl_event =
    Driver_call setter c_int
  | Resp_send_500
  | Resp_send_404
  | Resp_set_hdr string string
  | Resp_send string

text \<open>\<^verbatim>\<open>s->set_x(s, val)\<close>: the driver's return code, and the call as an event.\<close>

definition driver_call :: "sensor_t \<Rightarrow> setter \<Rightarrow> c_int \<Rightarrow> c_int \<times> ctl_event list" where
  "driver_call s f val = (setter_ret s f val, [Driver_call f val])"

text \<open>
  The chain of \<^verbatim>\<open>strcmp\<close> tests of \<^verbatim>\<open>cmd_handler\<close>, in the order of the source: the
  value of \<^verbatim>\<open>res\<close> after it, which starts as 0, and the driver calls made.
\<close>

definition cmd_dispatch :: "sensor_t \<Rightarrow> string \<Rightarrow> c_int \<Rightarrow> c_int \<times> ctl_event list" where
  "cmd_dispatch s variable val =
     (if variable = ''framesize'' then
        (if pixformat s = PIXFORMAT_JPEG then driver_call s set_framesize val else (0, []))
      else if variable = ''quality'' then driver_call s set_quality val
      else if variable = ''contrast'' then driver_call s set_contrast val
      else if variable = ''brightness'' then driver_call s set_brightness val
      else if variable = ''saturation'' then driver_call s set_saturation val
      else if variable = ''gainceiling'' then driver_call s set_gainceiling val
      else if variable = ''colorbar'' then driver_call s set_colorbar val
      else if variable = ''awb'' then driver_call s set_whitebal val
      else if variable = ''agc'' then driver_call s set_gain_ctrl val
      else if variable = ''aec'' then driver_call s set_exposure_ctrl val
      else if variable = ''hmirror'' then driver_call s set_hmirror val
      else if variable = ''vflip'' then driver_call s set_vflip val
      else if variable = ''awb_gain'' then driver_call s set_awb_gain val
      else if variable = ''agc_gain'' then driver_call s set_agc_gain val
      else if variable = ''aec_value'' then driver_call s set_aec_value val
      else if variable = ''aec2'' then driver_call s set_aec2 val
      else if variable = ''dcw'' then driver_call s set_dcw val
      else if variable = ''bpc'' then driver_call s set_bpc val
      else if variable = ''wpc'' then driver_call s set_wpc val
      else if variable = ''raw_gma'' then driver_call s set_raw_gma val
      else if variable = ''lenc'' then driver_call s set_lenc val
      else if variable = ''wb_mode'' then driver_call s set_wb_mode val
      else if variable = ''ae_level'' then driver_call s set_ae_level val
      else (- 1, []))"

text \<open>
  \<^verbatim>\<open>cmd_handler\<close>: the value it returns and the calls it makes. The query is fetched
  and searched for \<^verbatim>\<open>var\<close> and then \<^verbatim>\<open>val\<close>; every failure on the way answers and
  returns at once.
\<close>

definition cmd_handler :: "control_req \<Rightarrow> sensor_t \<Rightarrow> esp_err_t \<times> ctl_event list" where
  "cmd_handler req s =
     (let buf_len = url_query_len req + 1 in
      if 1 < buf_len then
        (if \<not> malloc_buf req then (ESP_FAIL, [Resp_send_500])
         else
           (case url_query_str req of
              None \<Rightarrow> (ESP_FAIL, [Resp_send_404])
            | Some buf \<Rightarrow>
                (case query_key_value req buf ''var'' of
                   None \<Rightarrow> (ESP_FAIL, [Resp_send_404])
                 | Some variable \<Rightarrow>
                     (case query_key_value req buf ''val'' of
                        None \<Rightarrow> (ESP_FAIL, [Resp_send_404])
                      | Some value \<Rightarrow>
                          (let val = atoi req value;
                               (res, calls) = cmd_dispatch s variable val
                           in if res \<noteq> 0 then (resp_ret req, calls @ [Resp_send_500])
                              else (resp_ret req,
                                    calls @ [Resp_set_hdr ''Access-Control-Allow-Origin'' ''*'',
                                             Resp_send []]))))))
      else (ESP_FAIL, [Resp_send_404]))"

text \<open>The parameter names the chain of \<^verbatim>\<open>cmd_handler\<close> tests for.\<close>

definition supported_names :: "string list" where
  "supported_names =
     [''framesize'', ''quality'', ''contrast'', ''brightness'', ''saturation'',
      ''gainceiling'', ''colorbar'', ''awb'', ''agc'', ''aec'', ''hmirror'', ''vflip'',
      ''awb_gain'', ''agc_gain'', ''aec_value'', ''aec2'', ''dcw'', ''bpc'', ''wpc'',
      ''raw_gma'', ''lenc'', ''wb_mode'', ''ae_level'']"

text \<open>
  A request whose query is absent, cannot be fetched, or lacks the \<^verbatim>\<open>var\<close> or the
  \<^verbatim>\<open>val\<close> key.
\<close>

definition query_incomplete :: "control_req \<Rightarrow> bool" where
  "query_incomplete req \<longleftrightarrow>
     url_query_len req = 0 \<or>
     (case url_query_str req of
        None \<Rightarrow> True
      | Some buf \<Rightarrow> query_key_value req buf ''var'' = None \<or>
                    query_key_value req buf ''val'' = None)"

text \<open>
  Concrete requests and sensors for the examples: a request with the query string \<open>q\<close>
  whose keys and values are \<open>kvs\<close>, with the allocation succeeding or not; a sensor in a
  given pixel format whose driver accepts every value.
\<close>

definition example_req :: "bool \<Rightarrow> string \<Rightarrow> (string \<times> string) list \<Rightarrow> control_req" where
  "example_req ok q kvs =
     \<lparr>url_query_len = of_nat (length q), malloc_buf = ok, url_query_str = Some q,
      query_key_value = (\<lambda>buf key. map_of kvs key),
      atoi = (\<lambda>v. if v = ''5'' then 5 else 0), resp_ret = ESP_OK\<rparr>"

definition example_sensor :: "pixformat_t \<Rightarrow> sensor_t" where
  "example_sensor fmt = \<lparr>pixformat = fmt, setter_ret = (\<lambda>f v. 0)\<rparr>"

section \<open>The stream handler\<close>

text \<open>
  The model follows the definition of \<^verbatim>\<open>stream_handler\<close> that formats the part header and
  feeds the rate filter (the second of the two definitions in the source file). The first
  definition sends as header a chunk it never formats, with a length \<^verbatim>\<open>hlen\<close> it never
  declares, and has no behaviour to model.

  A frame buffer of the driver carries its bytes, its length and its pixel format.
\<close>

record camera_fb_t =
  buf :: string
  len :: size_t
  format :: pixformat_t

text \<open>
  What the outside world answers during one iteration of the loop: the frame
  \<^verbatim>\<open>esp_camera_fb_get\<close> returns (or null), the buffer and length \<^verbatim>\<open>frame2jpg\<close> produces
  when it succeeds (it writes its two output parameters only on success), the codes
  the three \<^verbatim>\<open>httpd_resp_send_chunk\<close> calls return, and the reading of
  \<^verbatim>\<open>esp_timer_get_time\<close> at the end of the iteration. An answer is consulted only when the
  call is made.
\<close>

record frame_io =
  fb_get :: "camera_fb_t option"
  frame2jpg :: "(string \<times> size_t) option"
  send_part :: esp_err_t
  send_jpg :: esp_err_t
  send_boundary :: esp_err_t
  timer :: int64_t

text \<open>
  The calls of the handler, as events. \<open>Log_mjpg\<close> is the diagnostic line with its
  three arguments: byte size, elapsed milliseconds, and the frames-per-second value, which
  is a \<^verbatim>\<open>double\<close> in the source and the exact quotient here (\<open>None\<close> for a division by
  zero, which gives an infinity in C).
\<close>

datatype stream_event =
    Set_type string
  | Set_hdr string string
  | Fb_get "camera_fb_t option"
  | Frame2jpg camera_fb_t "(string \<times> size_t) option"
  | Fb_return camera_fb_t
  | Free string
  | Send_chunk string size_t
  | Log_mjpg uint32_t uint32_t "real option"

text \<open>The local variables of \<^verbatim>\<open>stream_handler\<close> (the leading underscores dropped).\<close>

record stream_locals =
  fb :: "camera_fb_t option"
  res :: esp_err_t
  jpg_buf_len :: size_t
  jpg_buf :: "string option"

definition stream_locals_init :: stream_locals where
  "stream_locals_init = \<lparr>fb = None, res = ESP_OK, jpg_buf_len = 0, jpg_buf = None\<rparr>"

text \<open>
  The variables that outlive a request: the filter, the function-static \<^verbatim>\<open>last_frame\<close>, and
  the two server handles (null, or the URIs registered with the server).
\<close>

record globals =
  ra_filter :: ra_filter_t
  last_frame :: int64_t
  camera_httpd :: "string list option"
  stream_httpd :: "string list option"













text \<open>The third argument of the log line: \<^verbatim>\<open>1000000.0 / (uint32_t)avg_frame_time\<close>.\<close>

definition log_fps :: "uint32_t \<Rightarrow> real option" where
  "log_fps avg_frame_time =
     (if avg_frame_time = 0 then None else Some (1000000 / real (unat avg_frame_time)))"

text \<open>
  The rest of the body, run when the part was written: the time since
  \<^verbatim>\<open>last_frame\<close> in microseconds, divided by 1000 (a signed 64-bit division), is cut to
  \<^verbatim>\<open>int\<close> for the filter; the filter's result is kept in a \<^verbatim>\<open>uint32_t\<close>.
\<close>

definition stream_stats :: "globals \<Rightarrow> stream_locals \<Rightarrow> frame_io \<Rightarrow> fault + (globals \<times> stream_event)" where
  "stream_stats g l io =
     (let fr_end = timer io;
          frame_time = fr_end - last_frame g;
          g = g\<lparr>last_frame := fr_end\<rparr>;
          frame_time = div_int64 frame_time 1000
      in case ra_filter_run (ra_filter g) (ucast frame_time) of
           Inl e \<Rightarrow> Inl e
         | Inr (avg_frame_time, flt) \<Rightarrow>
             Inr (g\<lparr>ra_filter := flt\<rparr>,
                  Log_mjpg (jpg_buf_len l) (ucast frame_time) (log_fps avg_frame_time)))"













text \<open>
  Concrete answers for the examples: a five-byte frame in a given format, and an
  iteration that gets this frame (or none), with a given conversion result, write results
  and timer reading.
\<close>

definition example_fb :: "pixformat_t \<Rightarrow> camera_fb_t" where
  "example_fb fmt = \<lparr>buf = ''JFIF!'', len = 5, format = fmt\<rparr>"

definition example_io ::
  "camera_fb_t option \<Rightarrow> (string \<times> size_t) option \<Rightarrow> esp_err_t \<Rightarrow> int64_t \<Rightarrow> frame_io" where
  "example_io f conv wr t =
     \<lparr>fb_get = f, frame2jpg = conv, send_part = ESP_OK, send_jpg = ESP_OK,
      send_boundary = wr, timer = t\<rparr>"


section \<open>Startup\<close>

text \<open>
  The variables of static storage start out zero: the filter all zero with a null
  buffer, \<^verbatim>\<open>last_frame\<close> zero, both server handles null.
\<close>

definition globals_init :: globals where
  "globals_init =
     \<lparr>ra_filter = ra_filter_zero, last_frame = 0, camera_httpd = None, stream_httpd = None\<rparr>"

text \<open>
  What \<^verbatim>\<open>setup\<close> meets: whether PSRAM is found, the code \<^verbatim>\<open>esp_camera_init\<close> returns,
  the answers to the successive tests \<^verbatim>\<open>WiFi.status() != WL_CONNECTED\<close> (\<open>True\<close> for
  connected), and the code \<^verbatim>\<open>httpd_start\<close> returns for a port.
\<close>

record boot_env =
  psramFound :: bool
  camera_init_ret :: esp_err_t
  wifi_connected :: "bool list"
  httpd_start_ret :: "nat \<Rightarrow> esp_err_t"

datatype boot_event =
    Camera_init string nat nat
  | Sensor_set setter c_int
  | Wifi_begin
  | Wifi_delay
  | Httpd_start nat
  | Register_uri nat string

text \<open>
  \<^verbatim>\<open>startCameraServer\<close>: the control server on port 80 with its three URIs, the stream
  server on the next port with one. A server that fails to start leaves its handle null.
\<close>

definition startCameraServer :: "(nat \<Rightarrow> esp_err_t) \<Rightarrow> globals \<Rightarrow> boot_event list \<times> globals" where
  "startCameraServer start g =
     (let server_port = 80;
          (g, e1) =
            (if start server_port = ESP_OK then
               (g\<lparr>camera_httpd := Some [''/'', ''/capture'', ''/control'']\<rparr>,
                [Httpd_start server_port, Register_uri server_port ''/'',
                 Register_uri server_port ''/capture'', Register_uri server_port ''/control''])
             else (g, [Httpd_start server_port]));
          server_port = server_port + 1;
          (g, e2) =
            (if start server_port = ESP_OK then
               (g\<lparr>stream_httpd := Some [''/stream'']\<rparr>,
                [Httpd_start server_port, Register_uri server_port ''/stream''])
             else (g, [Httpd_start server_port]))
      in (e1 @ e2, g))"

text \<open>The loop that waits for the network: the delays made until the test finds the
  connection, \<open>None\<close> while it has not.\<close>

fun wifi_wait :: "bool list \<Rightarrow> boot_event list option" where
  "wifi_wait [] = None"
| "wifi_wait (c # cs) = (if c then Some [] else map_option ((#) Wifi_delay) (wifi_wait cs))"

text \<open>The sensor settings of \<^verbatim>\<open>setup\<close>, in the order of the source.\<close>

definition sensor_defaults :: "boot_event list" where
  "sensor_defaults =
     [Sensor_set set_brightness 0, Sensor_set set_contrast 0, Sensor_set set_saturation 0,
      Sensor_set set_special_effect 0, Sensor_set set_whitebal 1, Sensor_set set_awb_gain 1,
      Sensor_set set_wb_mode 0, Sensor_set set_exposure_ctrl 1, Sensor_set set_aec2 0,
      Sensor_set set_gain_ctrl 1, Sensor_set set_agc_gain 0, Sensor_set set_gainceiling 0,
      Sensor_set set_bpc 0, Sensor_set set_wpc 1, Sensor_set set_raw_gma 1,
      Sensor_set set_lenc 1, Sensor_set set_hmirror 0, Sensor_set set_vflip 0,
      Sensor_set set_dcw 1, Sensor_set set_colorbar 0]"

text \<open>
  The function \<^verbatim>\<open>setup\<close> (\<open>setup_fn\<close> here): the calls it makes and the globals it leaves, \<open>None\<close> while it still waits
  for the network. It returns early when the camera cannot be initialised.
\<close>

definition setup_fn :: "boot_env \<Rightarrow> globals \<Rightarrow> (boot_event list \<times> globals) option" where
  "setup_fn env g =
     (let config =
            (if psramFound env then Camera_init ''FRAMESIZE_UXGA'' 10 2
             else Camera_init ''FRAMESIZE_SVGA'' 12 1)
      in if camera_init_ret env \<noteq> ESP_OK then Some ([config], g)
         else
           (case wifi_wait (wifi_connected env) of
              None \<Rightarrow> None
            | Some delays \<Rightarrow>
                (let (es, g) = startCameraServer (httpd_start_ret env) g
                 in Some (config # sensor_defaults @ Wifi_begin # delays @ es, g))))"

definition example_boot :: boot_env where
  "example_boot =
     \<lparr>psramFound = True, camera_init_ret = ESP_OK, wifi_connected = [False, True],
      httpd_start_ret = (\<lambda>port. ESP_OK)\<rparr>"


section \<open>Properties of the rate filter\<close>

text \<open>
  Claim C10. Called on a filter whose buffer was never allocated (a null \<^verbatim>\<open>values\<close>
  pointer), \<^verbatim>\<open>ra_filter_run\<close> returns the sample it was given and leaves every field of
  the filter, the sum, the index and the count among them, as it was.
\<close>

theorem ra_filter_run_null:
  "values_f flt = None \<Longrightarrow> ra_filter_run flt v = Inr (v, flt)"
  by (simp add: ra_filter_run_def)

theorem ra_filter_run_null_witness:
  "values_f ra_filter_zero = None \<and> ra_filter_run ra_filter_zero 33 = Inr (33, ra_filter_zero)"
  using ra_filter_run_null [of ra_filter_zero 33] by (simp add: ra_filter_zero_def)

subsection \<open>The window invariant\<close>

lemma mod_neq_window:
  fixes k n W :: nat
  assumes "k < n" "n < k + W"
  shows "k mod W \<noteq> n mod W"
proof
  assume "k mod W = n mod W"
  then have "W dvd (n - k)"
    using assms(1) by (metis mod_eq_dvd_iff_nat less_imp_le_nat)
  moreover have "0 < n - k" "n - k < W" using assms by auto
  ultimately show False using nat_dvd_not_less by blast
qed

lemma sum_list_window_snoc:
  fixes hist :: "c_int list"
  assumes "0 < W"
  shows "sum_list (drop (Suc (length hist) - W) (hist @ [x])) =
         sum_list (drop (length hist - W) hist)
           - (if W \<le> length hist then hist ! (length hist - W) else 0) + x"
proof (cases "W \<le> length hist")
  case True
  then have lt: "length hist - W < length hist" using assms by simp
  have "Suc (length hist) - W = Suc (length hist - W)" using True by simp
  moreover have "drop (length hist - W) hist = hist ! (length hist - W) # drop (Suc (length hist - W)) hist"
    using lt by (simp add: Cons_nth_drop_Suc)
  ultimately show ?thesis using True lt by simp
next
  case False
  then show ?thesis by simp
qed

lemma ra_inv_step:
  assumes inv: "ra_inv W hist flt"
  shows "\<exists>flt'. ra_filter_run flt x = Inr (sum_f flt' div count_f flt', flt') \<and> ra_inv W (hist @ [x]) flt'"
proof -
  let ?n = "length hist"
  from inv obtain buf where
    W: "0 < W" and sz: "unat (size_f flt) = W" and ix: "unat (index_f flt) = ?n mod W"
    and ct: "unat (count_f flt) = min ?n W"
    and sm: "sum_f flt = sum_list (drop (?n - W) hist)"
    and vs: "values_f flt = Some buf" and len: "length buf = W"
    and live: "\<forall>k<?n. ?n \<le> k + W \<longrightarrow> buf ! (k mod W) = hist ! k"
    and zero: "\<forall>j<W. ?n \<le> j \<longrightarrow> buf ! j = 0"
    unfolding ra_inv_def by blast
  have ilt: "?n mod W < W" using W by simp
  have "0 < unat (size_f flt)" using sz W by simp
  then have sz0: "size_f flt \<noteq> 0" by (simp add: unat_gt_0)
  have old: "buf ! (?n mod W) = (if W \<le> ?n then hist ! (?n - W) else 0)"
  proof (cases "W \<le> ?n")
    case True
    then have "(?n - W) mod W = ?n mod W" by (simp add: le_mod_geq)
    moreover have "buf ! ((?n - W) mod W) = hist ! (?n - W)"
      using live True W by simp
    ultimately show ?thesis using True by simp
  next
    case False
    then show ?thesis using zero by simp
  qed
  have Wlt: "W < 2 ^ 32" using sz unsigned_less [of "size_f flt", where ?'a = nat] by simp
  have ix1: "unat (index_f flt + 1) = ?n mod W + 1"
    using ix ilt Wlt by (simp add: unat_word_ariths)
  have ix2: "unat ((index_f flt + 1) mod size_f flt) = Suc ?n mod W"
    using ix1 sz by (simp add: unat_mod mod_Suc_eq)
  have clt: "count_f flt < size_f flt \<longleftrightarrow> ?n < W"
    using ct sz by (auto simp: word_less_nat_alt)
  have ct1: "?n < W \<Longrightarrow> unat (count_f flt + 1) = Suc ?n"
    using ct Wlt by (simp add: unat_word_ariths)
  let ?c = "if count_f flt < size_f flt then count_f flt + 1 else count_f flt"
  have c': "unat ?c = min (Suc ?n) W"
    using clt ct1 ct by auto
  have "0 < unat ?c" using c' W by simp
  then have c0: "?c \<noteq> 0" by (simp add: unat_gt_0)
  let ?buf = "buf[?n mod W := x]"
  let ?sum = "sum_f flt - buf ! (?n mod W) + ?buf ! (?n mod W)"
  let ?flt = "flt\<lparr>sum_f := ?sum, values_f := Some ?buf,
                 index_f := (index_f flt + 1) mod size_f flt, count_f := ?c\<rparr>"
  have run: "ra_filter_run flt x = Inr (sum_f ?flt div count_f ?flt, ?flt)"
    using vs ix ilt len sz0 c0 by (simp add: ra_filter_run_def Let_def)
  have sum': "?sum = sum_list (drop (length (hist @ [x]) - W) (hist @ [x]))"
    using sum_list_window_snoc [OF W, of hist x] old sm ilt len by simp
  have live': "\<forall>k<length (hist @ [x]). length (hist @ [x]) \<le> k + W \<longrightarrow> ?buf ! (k mod W) = (hist @ [x]) ! k"
  proof (intro allI impI)
    fix k assume k: "k < length (hist @ [x])" and kw: "length (hist @ [x]) \<le> k + W"
    show "?buf ! (k mod W) = (hist @ [x]) ! k"
    proof (cases "k = ?n")
      case True
      then show ?thesis using ilt len by simp
    next
      case False
      then have kn: "k < ?n" using k by simp
      then have "k mod W \<noteq> ?n mod W" using mod_neq_window [of k ?n W] kw by simp
      then have "?buf ! (k mod W) = buf ! (k mod W)" by simp
      also have "\<dots> = hist ! k" using live kn kw by simp
      finally show ?thesis using kn by (simp add: nth_append)
    qed
  qed
  have zero': "\<forall>j<W. length (hist @ [x]) \<le> j \<longrightarrow> ?buf ! j = 0"
  proof (intro allI impI)
    fix j assume j: "j < W" and nj: "length (hist @ [x]) \<le> j"
    then have "?n < W" by simp
    then have "?n mod W = ?n" by simp
    then have "?buf ! j = buf ! j" using nj by simp
    then show "?buf ! j = 0" using zero j nj by simp
  qed
  have "ra_inv W (hist @ [x]) ?flt"
    unfolding ra_inv_def using W sz ix2 c' sum' len live' zero' by simp
  then show ?thesis using run by blast
qed


lemma ra_inv_init:
  assumes "ra_filter_init malloc_ok flt0 w = (True, flt)" "0 < unat w" "unat w < 2 ^ 30"
  shows "ra_inv (unat w) [] flt"
proof -
  have "unat (w * 4) = unat w * 4"
    using assms(3) by (simp add: unat_word_ariths)
  then have "unat (w * 4) div 4 = unat w" by simp
  then show ?thesis
    using assms(1,2)
    by (auto simp: ra_filter_init_def ra_filter_zero_def ra_inv_def Let_def split: if_splits)
qed

lemma ra_inv_run_all:
  assumes "ra_inv W hist flt"
  shows "\<exists>flt'. ra_filter_run_all flt x ys = Inr (sum_f flt' div count_f flt', flt') \<and>
               ra_inv W (hist @ x # ys) flt'"
  using assms
proof (induction ys arbitrary: flt x hist)
  case Nil
  then show ?case using ra_inv_step [of W hist flt x] by simp
next
  case (Cons y ys)
  from ra_inv_step [OF Cons.prems, of x] obtain flt1 where
    r: "ra_filter_run flt x = Inr (sum_f flt1 div count_f flt1, flt1)"
    and i: "ra_inv W (hist @ [x]) flt1" by blast
  from Cons.IH [OF i, of y] show ?case using r by simp
qed

lemma sint_nonneg_uint:
  fixes x :: c_int
  assumes "0 \<le> sint x"
  shows "uint x = sint x"
proof -
  have "sint x < 2 ^ 32" using sint_lt [of x] by simp
  then have "take_bit 32 (sint x) = sint x"
    using assms by (simp add: take_bit_int_eq_self)
  then show ?thesis using uint_sint [of x] by simp
qed

lemma uint_small_sint:
  fixes x :: c_int
  assumes "uint x < 2 ^ 31"
  shows "sint x = uint x"
proof -
  have "signed_take_bit 31 (uint x) = uint x"
  proof (rule signed_take_bit_int_eq_self)
    have "- (2 ^ 31) \<le> (0::int)" by simp
    also have "0 \<le> uint x" by simp
    finally show "- (2 ^ 31) \<le> uint x" .
    show "uint x < 2 ^ 31" by (rule assms)
  qed
  then show ?thesis using sint_uint [of x] by simp
qed

lemma uint_sum_list_nonneg:
  fixes ws :: "c_int list"
  assumes "\<forall>s\<in>set ws. 0 \<le> sint s" "sum_list (map sint ws) < 2 ^ 31"
  shows "uint (sum_list ws) = sum_list (map sint ws)"
  using assms
proof (induction ws)
  case Nil
  then show ?case by simp
next
  case (Cons a ws)
  have nn: "0 \<le> sum_list (map sint ws)"
    using Cons.prems(1) by (intro sum_list_nonneg) auto
  have a: "uint a = sint a" "0 \<le> sint a" using Cons.prems(1) by (simp_all add: sint_nonneg_uint)
  have "sum_list (map sint ws) < 2 ^ 31" using Cons.prems(2) a(2) by simp
  then have IH: "uint (sum_list ws) = sum_list (map sint ws)"
    using Cons.IH Cons.prems(1) by simp
  have "uint (sum_list (a # ws)) = (uint a + uint (sum_list ws)) mod 2 ^ 32"
    by (simp add: uint_word_ariths)
  also have "\<dots> = sint a + sum_list (map sint ws)"
    using a IH nn Cons.prems(2) by simp
  finally show ?case by simp
qed

text \<open>
  Claim C3. A filter that \<^verbatim>\<open>ra_filter_init\<close> has set up with window size \<open>w\<close> (the
  allocation succeeded, \<open>w\<close> is at least 1 and its byte count fits \<^verbatim>\<open>size_t\<close>) records
  the \<open>n \<ge> 1\<close> samples \<open>x # ys\<close> without a fault; afterwards the running sum is the sum
  of the last \<open>min n w\<close> samples, the valid-count is \<open>min n w\<close>, and the value returned
  by the last call is the running sum divided by the valid-count. Sum and quotient are the
  machine's: 32-bit, wrapping, the division unsigned. Where the samples of the window are
  not negative and their sum fits \<^verbatim>\<open>int\<close>, this is the integer quotient of the integer sum
  of the last \<open>min n w\<close> samples by \<open>min n w\<close>.
\<close>

theorem ra_filter_window_average:
  assumes init: "ra_filter_init malloc_ok flt0 w = (True, flt)"
    and w: "0 < unat w" "unat w < 2 ^ 30"
  shows "\<exists>avg flt'.
           ra_filter_run_all flt x ys = Inr (avg, flt') \<and>
           sum_f flt' = sum_list (last_samples (min (length (x # ys)) (unat w)) (x # ys)) \<and>
           unat (count_f flt') = min (length (x # ys)) (unat w) \<and>
           avg = sum_f flt' div count_f flt' \<and>
           ((\<forall>s\<in>set (last_samples (min (length (x # ys)) (unat w)) (x # ys)). 0 \<le> sint s) \<and>
            sum_list (map sint (last_samples (min (length (x # ys)) (unat w)) (x # ys))) < 2 ^ 31 \<longrightarrow>
            sint avg =
              sum_list (map sint (last_samples (min (length (x # ys)) (unat w)) (x # ys)))
                div int (min (length (x # ys)) (unat w)))"
proof -
  let ?m = "min (length (x # ys)) (unat w)"
  let ?win = "last_samples ?m (x # ys)"
  from ra_inv_run_all [OF ra_inv_init [OF init w], of x ys] obtain flt' where
    run: "ra_filter_run_all flt x ys = Inr (sum_f flt' div count_f flt', flt')"
    and inv: "ra_inv (unat w) (x # ys) flt'" by auto
  have win: "?win = drop (length (x # ys) - unat w) (x # ys)"
    by (simp add: last_samples_def min_def)
  have sm: "sum_f flt' = sum_list ?win"
    using inv unfolding win by (simp add: ra_inv_def)
  have ct: "unat (count_f flt') = ?m"
    using inv by (simp add: ra_inv_def)
  have rng: "sint (sum_f flt' div count_f flt') = sum_list (map sint ?win) div int ?m"
    if nn: "\<forall>s\<in>set ?win. 0 \<le> sint s" and bd: "sum_list (map sint ?win) < 2 ^ 31"
  proof -
    have us: "uint (sum_f flt') = sum_list (map sint ?win)"
      unfolding sm using nn bd by (rule uint_sum_list_nonneg)
    have uc: "uint (count_f flt') = int ?m"
      using ct by (simp add: uint_nat)
    have q: "uint (sum_f flt' div count_f flt') = sum_list (map sint ?win) div int ?m"
      by (simp only: uint_div us uc)
    have "0 \<le> sum_list (map sint ?win)" using nn by (intro sum_list_nonneg) auto
    moreover have "(1::int) \<le> int ?m" using w(1) by simp
    ultimately have "sum_list (map sint ?win) div int ?m \<le> sum_list (map sint ?win) div 1"
      by (intro zdiv_mono2) simp_all
    then have "uint (sum_f flt' div count_f flt') < 2 ^ 31" using q bd by simp
    then show ?thesis using q by (simp add: uint_small_sint)
  qed
  show ?thesis
    using run sm ct rng by blast
qed


theorem ra_filter_window_average_witness:
  "ra_filter_init True ra_filter_zero 3 =
     (True, \<lparr>size_f = 3, index_f = 0, count_f = 0, sum_f = 0, values_f = Some [0, 0, 0]\<rparr>) \<and>
   (\<exists>avg flt'.
      ra_filter_run_all
        \<lparr>size_f = 3, index_f = 0, count_f = 0, sum_f = 0, values_f = Some [0, 0, 0]\<rparr>
        10 [20, 30, 40] = Inr (avg, flt') \<and>
      sum_f flt' = 90 \<and> unat (count_f flt') = 3 \<and> avg = sum_f flt' div count_f flt' \<and>
      sint avg = 30)"
proof -
  have init: "ra_filter_init True ra_filter_zero 3 =
     (True, \<lparr>size_f = 3, index_f = 0, count_f = 0, sum_f = 0, values_f = Some [0, 0, 0]\<rparr>)"
    by (simp add: ra_filter_init_def ra_filter_zero_def Let_def numeral_3_eq_3)
  have w: "0 < unat (3 :: size_t)" "unat (3 :: size_t) < 2 ^ 30" by simp_all
  have m: "min (length (10 # [20, 30, 40 :: c_int])) (unat (3 :: size_t)) = 3" by simp
  have win: "last_samples 3 (10 # [20, 30, 40 :: c_int]) = [20, 30, 40]"
    by (simp add: last_samples_def)
  note run = ra_filter_window_average [OF init w, of 10 "[20, 30, 40]", unfolded m win]
  show ?thesis
    using init run by simp
qed

section \<open>Properties of the control handler\<close>

lemma dispatch_unknown:
  "variable \<notin> set supported_names \<Longrightarrow> cmd_dispatch s variable val = (- 1, [])"
  by (simp add: supported_names_def cmd_dispatch_def)

text \<open>
  Claim C9. A request whose \<^verbatim>\<open>var\<close> value is none of the names the handler tests for
  is answered with an error status and no driver setter is called, whatever the sensor's
  state: the answer is 500 once the query has been read in full (404 or 500 when reading
  it fails first).
\<close>

theorem cmd_handler_unknown_name:
  assumes "url_query_str req = Some q"
    and "query_key_value req q ''var'' = Some variable"
    and "variable \<notin> set supported_names"
  shows "(snd (cmd_handler req s) = [Resp_send_500] \<or> snd (cmd_handler req s) = [Resp_send_404]) \<and>
         (1 < url_query_len req + 1 \<and> malloc_buf req \<and> query_key_value req q ''val'' \<noteq> None \<longrightarrow>
            cmd_handler req s = (resp_ret req, [Resp_send_500]))"
  using assms by (auto simp: cmd_handler_def dispatch_unknown Let_def split: option.splits)

theorem cmd_handler_unknown_name_witness:
  "cmd_handler (example_req True ''var=zoom&val=5'' [(''var'', ''zoom''), (''val'', ''5'')])
     (example_sensor PIXFORMAT_JPEG) = (ESP_OK, [Resp_send_500])"
  using cmd_handler_unknown_name [of "example_req True ''var=zoom&val=5'' [(''var'', ''zoom''), (''val'', ''5'')]"
      "''var=zoom&val=5''" "''zoom''" "example_sensor PIXFORMAT_JPEG"]
  by (simp add: example_req_def supported_names_def)

text \<open>
  Claim C1, as stated, fails: with the sensor in a raw format, a \<^verbatim>\<open>framesize\<close> request
  is answered with the success response, not with an error.
\<close>

theorem framesize_raw_counterexample:
  "cmd_handler (example_req True ''var=framesize&val=5'' [(''var'', ''framesize''), (''val'', ''5'')])
     (example_sensor PIXFORMAT_RGB565) =
   (ESP_OK, [Resp_set_hdr ''Access-Control-Allow-Origin'' ''*'', Resp_send []])"
  by (simp add: cmd_handler_def cmd_dispatch_def example_req_def example_sensor_def Let_def)

text \<open>
  Claim C1, amended. A \<^verbatim>\<open>framesize\<close> request made while the pixel format is not the
  compressed one makes no driver call at all; \<^verbatim>\<open>res\<close> keeps its initial 0, so the
  handler sets the CORS header and sends the empty success response.
\<close>

theorem framesize_raw_not_forwarded:
  assumes "1 < url_query_len req + 1" "malloc_buf req" "url_query_str req = Some q"
    and "query_key_value req q ''var'' = Some ''framesize''"
    and "query_key_value req q ''val'' = Some value"
    and "pixformat s \<noteq> PIXFORMAT_JPEG"
  shows "cmd_handler req s =
           (resp_ret req, [Resp_set_hdr ''Access-Control-Allow-Origin'' ''*'', Resp_send []])"
  using assms by (simp add: cmd_handler_def cmd_dispatch_def Let_def)

theorem framesize_raw_not_forwarded_witness:
  "pixformat (example_sensor PIXFORMAT_RAW) \<noteq> PIXFORMAT_JPEG \<and>
   cmd_handler (example_req True ''var=framesize&val=5'' [(''var'', ''framesize''), (''val'', ''5'')])
     (example_sensor PIXFORMAT_RAW) =
   (ESP_OK, [Resp_set_hdr ''Access-Control-Allow-Origin'' ''*'', Resp_send []])"
  using framesize_raw_not_forwarded [of
      "example_req True ''var=framesize&val=5'' [(''var'', ''framesize''), (''val'', ''5'')]"
      "''var=framesize&val=5''" "''5''" "example_sensor PIXFORMAT_RAW"]
  by (simp add: example_req_def example_sensor_def)

text \<open>
  Claim C8, as stated, fails: a query without \<^verbatim>\<open>val\<close> is answered 500 when the
  buffer for the query string cannot be allocated.
\<close>

theorem missing_val_counterexample:
  "query_incomplete (example_req False ''var=quality'' [(''var'', ''quality'')]) \<and>
   cmd_handler (example_req False ''var=quality'' [(''var'', ''quality'')])
     (example_sensor PIXFORMAT_JPEG) = (ESP_FAIL, [Resp_send_500])"
  by (simp add: query_incomplete_def cmd_handler_def example_req_def Let_def)

text \<open>
  Claim C8, amended. A request whose query is absent, cannot be fetched or lacks
  \<^verbatim>\<open>var\<close> or \<^verbatim>\<open>val\<close> makes no driver call and returns \<^verbatim>\<open>ESP_FAIL\<close>; it is answered
  404, except that a non-empty query whose buffer cannot be allocated is answered 500.
\<close>

theorem query_incomplete_response:
  assumes "query_incomplete req"
  shows "cmd_handler req s =
           (ESP_FAIL, [if 1 < url_query_len req + 1 \<and> \<not> malloc_buf req
                       then Resp_send_500 else Resp_send_404])"
proof (cases "1 < url_query_len req + 1")
  case False
  then show ?thesis by (simp add: cmd_handler_def)
next
  case True
  then have "url_query_len req \<noteq> 0" by auto
  then show ?thesis using assms True
    by (auto simp: cmd_handler_def query_incomplete_def Let_def split: option.splits)
qed

theorem query_incomplete_response_witness:
  "query_incomplete (example_req True ''var=quality'' [(''var'', ''quality'')]) \<and>
   cmd_handler (example_req True ''var=quality'' [(''var'', ''quality'')])
     (example_sensor PIXFORMAT_JPEG) = (ESP_FAIL, [Resp_send_404])"
proof -
  have q: "query_incomplete (example_req True ''var=quality'' [(''var'', ''quality'')])"
    by (simp add: query_incomplete_def example_req_def)
  show ?thesis
    using q query_incomplete_response [OF q, of "example_sensor PIXFORMAT_JPEG"]
    by (simp add: example_req_def)
qed

section \<open>Properties of the stream handler\<close>

subsection \<open>The writes of a part\<close>













subsection \<open>Frames and converted buffers\<close>











subsection \<open>The diagnostic line\<close>

text \<open>
  Claim C5. The log line reports the byte size and the elapsed milliseconds, but its
  third value is \<^verbatim>\<open>1000000.0\<close> divided by the smoothed average in milliseconds: for an
  average of 100 ms it is 10000, where 1000 divided by the average is 10.
\<close>

theorem log_fps_thousandfold:
  "stream_stats (globals_init\<lparr>last_frame := 1000000\<rparr>)
     (stream_locals_init\<lparr>jpg_buf_len := 5\<rparr>)
     (example_io (Some (example_fb PIXFORMAT_JPEG)) None ESP_OK 1100000) =
   Inr (globals_init\<lparr>last_frame := 1100000\<rparr>, Log_mjpg 5 100 (Some 10000))"
  by (simp add: stream_stats_def globals_init_def stream_locals_init_def example_io_def
      ra_filter_run_def ra_filter_zero_def div_int64_def log_fps_def Let_def
      signed_divide_int_def)

subsection \<open>The filter across a session\<close>
















section \<open>Properties of startup\<close>

lemma setup_keeps_ra_filter:
  "setup_fn env g = Some (evs, g') \<Longrightarrow> ra_filter g' = ra_filter g \<and> last_frame g' = last_frame g"
  by (auto simp: setup_fn_def startCameraServer_def Let_def split: if_splits option.splits prod.splits)

text \<open>
  Claim C2. Startup makes no call of \<^verbatim>\<open>ra_filter_init\<close>: after it the filter is still the
  zero-initialised static variable, its buffer pointer null and its size 0.
\<close>

theorem setup_filter_not_initialised:
  "map_option (ra_filter \<circ> snd) (setup_fn example_boot globals_init) = Some ra_filter_zero \<and>
   values_f ra_filter_zero = None \<and> size_f ra_filter_zero = 0"
  by (simp add: setup_fn_def startCameraServer_def example_boot_def globals_init_def
      ra_filter_zero_def Let_def)

end
